theory Spec2Isabelle
  imports Main "HOL-Library.AList"
begin

section \<open>The study-group bot: store, roster and handlers\<close>

text \<open>
  A shallow embedding of \<^verbatim>\<open>bot.py\<close>. The SQLite file is a record of four tables,
  each a list of rows in rowid order. Every handler is a function from the world it
  runs in (which library calls raise, what the chat platform answers, the clock), the
  inbound update and the bot's state to the new state, the outbound calls it attempted
  in order, and how it ended (the value it returned, or an exception that left it).
\<close>

subsection \<open>Configuration\<close>

text \<open>\<^verbatim>\<open>WAITING_FOR_FILE = 1\<close>; \<^verbatim>\<open>ConversationHandler.END\<close> is \<open>-1\<close> in the library.\<close>

definition WAITING_FOR_FILE :: int where
  "WAITING_FOR_FILE = 1"

definition END :: int where
  "END = - 1"

definition MEMBERS :: "(int \<times> string) list" where
  "MEMBERS =
    [(1387393147, ''Vamsee''),
     (8095569186, ''Umesh''),
     (6931175630, ''Chetan''),
     (6544711761, ''Yashwanth''),
     (5477604530, ''Karthik''),
     (6643208192, ''Sanjith''),
     (5801384729, ''Raghunandan''),
     (103419413, ''Pavan'')]"

text \<open>The source comments this list as "excluded from mentions when they use /tagall".\<close>

definition ADMINS :: "int list" where
  "ADMINS = [1387393147, 8095569186, 6643208192]"

subsection \<open>The store\<close>

record deadline_row =
  deadline_id :: int
  title :: string
  message_id :: int
  chat_id :: int
  file_id :: string
  created_at :: int

record schedule_row =
  schedule_id :: int
  run_time :: int
  message :: string

text \<open>
  \<open>members\<close> holds \<open>(user_id, first_name)\<close>, \<open>completions\<close> holds
  \<open>(deadline_id, user_id)\<close>. In \<open>members\<close> the \<^verbatim>\<open>INTEGER PRIMARY KEY\<close> column
  \<open>user_id\<close> is the rowid itself, so that table is read in ascending \<open>user_id\<close>. The
  two \<open>_seq\<close> fields are the \<^verbatim>\<open>sqlite_sequence\<close> entries that \<^verbatim>\<open>AUTOINCREMENT\<close> keeps:
  the largest rowid ever given out.
\<close>

record store =
  members :: "(int \<times> string) list"
  deadlines :: "deadline_row list"
  completions :: "(int \<times> int) list"
  schedules :: "schedule_row list"
  deadlines_seq :: int
  schedules_seq :: int

text \<open>\<^verbatim>\<open>AUTOINCREMENT\<close>: one more than the largest rowid in the table or ever used.\<close>

definition next_rowid :: "int \<Rightarrow> int list \<Rightarrow> int" where
  "next_rowid seq ids = fold max ids seq + 1"

subsection \<open>The world a handler runs in\<close>

text \<open>
  Nothing in the source raises by itself: every exception comes out of a call into
  \<^verbatim>\<open>sqlite3\<close> or the chat library. Each such call site has a tag, and the world says
  of each tag whether the call raises this time. Two calls have no tag because the
  source drops their exception on the spot (\<^verbatim>\<open>except Exception: pass\<close>):
  \<^verbatim>\<open>update.message.delete\<close> and \<^verbatim>\<open>query.edit_message_caption\<close>. A run lists the calls
  that were attempted, the one that raised included.
\<close>

datatype call =
    Get_member
  | Select_members
  | Select_deadline_count
  | Select_latest_deadline
  | Upsert_member
  | Reply_text
  | Reply_error
  | Insert_deadline
  | Send_file
  | Update_message_id
  | Answer_query
  | Select_completion
  | Answer_already
  | Insert_completion
  | Count_completions
  | Select_title
  | Commit_completion
  | Answer_marked
  | Answer_error
  | Select_deadline_status
  | Select_completed_users
  | Insert_schedule
  | Run_once
  | Send_message
  | Delete_schedule

record world =
  raises :: "call \<Rightarrow> bool"
  member_status :: "int \<Rightarrow> int \<Rightarrow> string"
  now :: int
  strptime :: "string \<Rightarrow> int option"
  sent_message_id :: int

subsection \<open>Roster\<close>

text \<open>
  \<^verbatim>\<open>members_set\<close> is a Python dict: assigning to a key that is present replaces the
  value where it stands, a new key goes to the end, and \<^verbatim>\<open>list(d.items())\<close> reads the
  pairs in that order. \<^const>\<open>AList.update\<close> is that assignment on an association list.
  The whole database block sits in one \<^verbatim>\<open>try\<close>, and its calls that can raise
  (\<^verbatim>\<open>connect\<close>, \<^verbatim>\<open>execute\<close>, \<^verbatim>\<open>fetchall\<close>) all come before the overlay loop.
\<close>

definition get_all_member_ids :: "world \<Rightarrow> store \<Rightarrow> (int \<times> string) list" where
  "get_all_member_ids w s =
    (let members_set = fold (\<lambda>(user_id, name) d. AList.update user_id name d) MEMBERS []
     in if raises w Select_members then members_set
        else fold (\<lambda>(user_id, first_name) d. AList.update user_id first_name d)
               (members s) members_set)"

definition get_member_count :: "world \<Rightarrow> store \<Rightarrow> nat" where
  "get_member_count w s = length (get_all_member_ids w s)"


subsection \<open>Updates, outbound calls and the bot's state\<close>

text \<open>
  An inbound message. \<open>command\<close> is the bot command the text starts with (what a
  \<^verbatim>\<open>CommandHandler\<close> matches on), \<open>args\<close> is \<^verbatim>\<open>context.args\<close>; \<open>document\<close> and
  \<open>video\<close> hold the attachment's \<^verbatim>\<open>file_id\<close>, \<open>photo\<close> the \<^verbatim>\<open>file_id\<close> of each
  offered size, smallest first.
\<close>

record update =
  effective_chat_id :: int
  effective_chat_type :: string
  effective_user_id :: int
  effective_user_first_name :: string
  effective_user_is_bot :: bool
  command :: "string option"
  args :: "string list"
  document :: "string option"
  photo :: "string list"
  video :: "string option"

text \<open>
  The texts the bot sends, one constructor per literal of the source with the values
  it interpolates. A mention text is the concatenation of one
  \<^verbatim>\<open>[first_name](tg://user?id=user_id)\<close> link per member; it is kept as the list of
  \<open>(first_name, user_id)\<close> pairs in the order they are concatenated.
\<close>

type_synonym mention_text = "(string \<times> int) list"

datatype content =
    Welcome
  | Help
  | Only_groups
  | Only_admins string
  | No_members_registered
  | Notification string mention_text
  | Mention_all mention_text
  | Group_statistics nat nat "(string \<times> int) option"
  | Deadline_usage
  | Creating_deadline string
  | Send_valid_file
  | Deadline_caption string
  | Deadline_posted
  | Error_posting_deadline
  | Creation_cancelled
  | Already_completed
  | Completed_caption string nat nat
  | Marked_completed nat nat
  | Error_recording_completion
  | No_deadlines_posted
  | Deadline_status "(string \<times> nat \<times> int) list"
  | Error_text
  | Everyone_completed string
  | Reminder string nat mention_text
  | Schedule_usage
  | Must_be_future
  | Reminder_scheduled string string string
  | Invalid_format
  | Scheduled_reminder string mention_text

datatype attachment = Document | Photo | Video

text \<open>
  The calls to the chat platform: \<^verbatim>\<open>update.message.reply_text\<close>,
  \<^verbatim>\<open>update.message.delete\<close>, \<^verbatim>\<open>context.bot.send_document/photo/video\<close> (chat, file,
  caption, the deadline id in the button's \<^verbatim>\<open>callback_data\<close>), \<^verbatim>\<open>query.answer\<close>
  (text, \<^verbatim>\<open>show_alert\<close>), \<^verbatim>\<open>query.edit_message_caption\<close> (caption, deadline id in
  the button) and \<^verbatim>\<open>context.bot.send_message\<close>.
\<close>

datatype outbound =
    Reply content
  | Delete
  | Send attachment int string content int
  | Answer "content option" bool
  | Edit_caption content int
  | Send_text int content

record job =
  job_schedule_id :: int
  job_message :: string
  job_chat_id :: int
  job_when :: int

text \<open>
  \<open>conversations\<close> is the \<^verbatim>\<open>ConversationHandler\<close>'s table, keyed by (chat id, user id):
  no entry is the idle session. \<open>user_data\<close> is \<^verbatim>\<open>context.user_data\<close> of each user,
  of which the source only uses the key \<^verbatim>\<open>"deadline_title"\<close>.
\<close>

record bot =
  db :: store
  conversations :: "int \<times> int \<Rightarrow> int option"
  user_data :: "int \<Rightarrow> string option"
  job_queue :: "job list"

datatype outcome = Returned "int option" | Raised

record run =
  bot_after :: bot
  calls :: "outbound list"
  returned :: outcome

definition finish :: "bot \<Rightarrow> outbound list \<Rightarrow> int option \<Rightarrow> run" where
  "finish b tr r = \<lparr>bot_after = b, calls = tr, returned = Returned r\<rparr>"

definition escape :: "bot \<Rightarrow> outbound list \<Rightarrow> run" where
  "escape b tr = \<lparr>bot_after = b, calls = tr, returned = Raised\<rparr>"

text \<open>A last call outside any \<^verbatim>\<open>try\<close>, followed by \<^verbatim>\<open>return r\<close>.\<close>

definition say :: "world \<Rightarrow> bot \<Rightarrow> outbound list \<Rightarrow> call \<Rightarrow> outbound \<Rightarrow> int option \<Rightarrow> run" where
  "say w b tr c x r = (if raises w c then escape b (tr @ [x]) else finish b (tr @ [x]) r)"

subsection \<open>Strings\<close>

text \<open>\<^verbatim>\<open>" ".join(xs)\<close>, and \<^verbatim>\<open>str.lower\<close> on the ASCII letters.\<close>

fun join :: "string list \<Rightarrow> string" where
  "join [] = []"
| "join [x] = x"
| "join (x # y # ys) = x @ '' '' @ join (y # ys)"

definition lower :: "string \<Rightarrow> string" where
  "lower xs = map (\<lambda>c. if 65 \<le> (of_char c :: nat) \<and> (of_char c :: nat) \<le> 90
                         then char_of ((of_char c :: nat) + 32) else c) xs"

definition mention_links :: "(int \<times> string) list \<Rightarrow> mention_text" where
  "mention_links ms = map (\<lambda>(user_id, first_name). (first_name, user_id)) ms"

subsection \<open>Helper functions of the source\<close>

definition is_admin :: "world \<Rightarrow> update \<Rightarrow> bool" where
  "is_admin w u =
    (if raises w Get_member then False
     else member_status w (effective_chat_id u) (effective_user_id u)
            \<in> set [''administrator'', ''creator''])"

definition get_deadline_count :: "world \<Rightarrow> store \<Rightarrow> nat" where
  "get_deadline_count w s = (if raises w Select_deadline_count then 0 else length (deadlines s))"

text \<open>
  \<^verbatim>\<open>ORDER BY created_at DESC LIMIT 1\<close>: a row whose \<open>created_at\<close> no other row exceeds.
  SQL leaves open which one when several rows share that timestamp; the model takes the
  one with the smallest rowid.
\<close>

definition get_latest_deadline :: "world \<Rightarrow> store \<Rightarrow> (int \<times> string \<times> int) option" where
  "get_latest_deadline w s =
    (if raises w Select_latest_deadline then None
     else case deadlines s of
            [] \<Rightarrow> None
          | r # rs \<Rightarrow>
              (let d = fold (\<lambda>x best. if created_at best < created_at x then x else best) rs r
               in Some (deadline_id d, title d, created_at d)))"

subsection \<open>Auto-registration and the simple commands\<close>

text \<open>
  \<^verbatim>\<open>INSERT OR IGNORE\<close> puts a new user at the place of its rowid, which is its
  \<open>user_id\<close>; the \<^verbatim>\<open>UPDATE\<close> then writes the name into the row of that user.
\<close>

definition auto_register_member :: "world \<Rightarrow> update \<Rightarrow> bot \<Rightarrow> run" where
  "auto_register_member w u b =
    (if effective_chat_type u \<notin> set [''group'', ''supergroup''] then finish b [] None
     else if effective_user_is_bot u then finish b [] None
     else
       let user_id = effective_user_id u;
           first_name = (if effective_user_first_name u = [] then ''User''
                         else effective_user_first_name u)
       in if raises w Upsert_member then finish b [] None
          else
            let inserted = (if user_id \<in> fst ` set (members (db b)) then members (db b)
                            else insort_key fst (user_id, first_name) (members (db b)));
                updated = map (\<lambda>(k, v). if k = user_id then (k, first_name) else (k, v)) inserted
            in finish (b\<lparr>db := (db b)\<lparr>members := updated\<rparr>\<rparr>) [] None)"

definition start :: "world \<Rightarrow> update \<Rightarrow> bot \<Rightarrow> run" where
  "start w u b = say w b [] Reply_text (Reply Welcome) None"

definition help_command :: "world \<Rightarrow> update \<Rightarrow> bot \<Rightarrow> run" where
  "help_command w u b = say w b [] Reply_text (Reply Help) None"

text \<open>
  The loop that builds the mention text wraps a string concatenation in \<^verbatim>\<open>try\<close>; it
  calls nothing that raises. The \<^verbatim>\<open>delete\<close> at the end is tried after the reply went
  out, and its exception is dropped.
\<close>

definition mention_command :: "world \<Rightarrow> update \<Rightarrow> bot \<Rightarrow> run" where
  "mention_command w u b =
    (if effective_chat_type u \<notin> set [''group'', ''supergroup'']
     then say w b [] Reply_text (Reply Only_groups) None
     else if \<not> is_admin w u then say w b [] Reply_text (Reply (Only_admins ''mention'')) None
     else
       let members' = get_all_member_ids w (db b)
       in if members' = [] then say w b [] Reply_text (Reply No_members_registered) None
          else
            let mention_text = mention_links members';
                message_text = (if args u \<noteq> [] then join (args u) else []);
                sent = (if message_text \<noteq> [] then Reply (Notification message_text mention_text)
                        else Reply (Mention_all mention_text))
            in if raises w Reply_text then escape b [sent]
               else finish b [sent, Delete] None)"

definition status_command :: "world \<Rightarrow> update \<Rightarrow> bot \<Rightarrow> run" where
  "status_command w u b =
    (if \<not> is_admin w u then say w b [] Reply_text (Reply (Only_admins ''status'')) None
     else
       let member_count = get_member_count w (db b);
           deadline_count = get_deadline_count w (db b);
           latest = map_option (\<lambda>(i, t, c). (t, c)) (get_latest_deadline w (db b))
       in say w b [] Reply_text (Reply (Group_statistics member_count deadline_count latest)) None)"

subsection \<open>The deadline commands\<close>

text \<open>
  The \<^verbatim>\<open>except\<close> branch shared by the deadline handlers: tell the caller, then
  \<^verbatim>\<open>return r\<close>. The reply stands outside the \<^verbatim>\<open>try\<close>: if it raises, the handler
  is left by that exception.
\<close>

definition report :: "world \<Rightarrow> bot \<Rightarrow> outbound list \<Rightarrow> content \<Rightarrow> int option \<Rightarrow> run" where
  "report w b tr err r = say w b tr Reply_error (Reply err) r"

text \<open>
  \<^verbatim>\<open>LEFT JOIN ... GROUP BY d.deadline_id ORDER BY d.created_at DESC\<close>: one line per
  deadline with the number of its completion rows, latest first (equal timestamps in
  rowid order). \<^verbatim>\<open>pending_count\<close> is a Python difference and may go below zero.
\<close>

definition deadline_status :: "world \<Rightarrow> update \<Rightarrow> bot \<Rightarrow> run" where
  "deadline_status w u b =
    (if raises w Select_deadline_status then report w b [] Error_text None
     else
       let rows = map (\<lambda>d. (title d, length (filter (\<lambda>(i, x). i = deadline_id d)
                                                  (completions (db b)))))
                      (sort_key (\<lambda>d. - created_at d) (deadlines (db b)))
       in if rows = [] then
            (if raises w Reply_text then report w b [Reply No_deadlines_posted] Error_text None
             else finish b [Reply No_deadlines_posted] None)
          else
            let total_members = get_member_count w (db b);
                status_text = map (\<lambda>(t, completed_count).
                                     (t, completed_count, int total_members - int completed_count))
                                  rows
            in if raises w Reply_text
               then report w b [Reply (Deadline_status status_text)] Error_text None
               else finish b [Reply (Deadline_status status_text)] None)"

definition deadline_remind :: "world \<Rightarrow> update \<Rightarrow> bot \<Rightarrow> run" where
  "deadline_remind w u b =
    (case get_latest_deadline w (db b) of
       None \<Rightarrow>
         (if raises w Reply_text then report w b [Reply No_deadlines_posted] Error_text None
          else finish b [Reply No_deadlines_posted] None)
     | Some (latest_id, latest_title, _) \<Rightarrow>
         let all_members = get_all_member_ids w (db b)
         in if raises w Select_completed_users then report w b [] Error_text None
            else
              let completed_users = map snd (filter (\<lambda>(i, x). i = latest_id)
                                                     (completions (db b)));
                  pending = filter (\<lambda>(user_id, first_name). user_id \<notin> set completed_users)
                                   all_members;
                  mention_text = mention_links pending;
                  pending_count = length pending;
                  sent = (if pending_count = 0 then Reply (Everyone_completed latest_title)
                          else Reply (Reminder latest_title pending_count mention_text))
              in if raises w Reply_text then report w b [sent] Error_text None
                 else finish b [sent] None)"

text \<open>
  A bare \<^verbatim>\<open>return\<close> gives \<open>None\<close> back to the conversation handler. The title is
  written to \<^verbatim>\<open>user_data\<close> before the prompt is sent.
\<close>

definition deadline_command :: "world \<Rightarrow> update \<Rightarrow> bot \<Rightarrow> run" where
  "deadline_command w u b =
    (if \<not> is_admin w u then say w b [] Reply_text (Reply (Only_admins ''deadline'')) None
     else if args u \<noteq> [] then
       (let subcommand = lower (hd (args u))
        in if subcommand = ''status'' then deadline_status w u b
           else if subcommand = ''remind'' then deadline_remind w u b
           else
             let t = join (args u);
                 b' = b\<lparr>user_data := (user_data b)(effective_user_id u \<mapsto> t)\<rparr>
             in say w b' [] Reply_text (Reply (Creating_deadline t)) (Some WAITING_FOR_FILE))
     else say w b [] Reply_text (Reply Deadline_usage) (Some END))"

text \<open>
  The row goes in with \<^verbatim>\<open>message_id = 0\<close> and is committed before the file is posted;
  the second connection patches the id in. One \<^verbatim>\<open>try\<close> spans the insert, the post, the
  patch and the success reply; its \<^verbatim>\<open>except\<close> reports and returns \<^verbatim>\<open>END\<close> without
  touching the database or \<^verbatim>\<open>user_data\<close>.
\<close>

definition deadline_receive_file :: "world \<Rightarrow> update \<Rightarrow> bot \<Rightarrow> run" where
  "deadline_receive_file w u b =
    (let t = (case user_data b (effective_user_id u) of
                None \<Rightarrow> ''Study Material'' | Some x \<Rightarrow> x);
         file = (case document u of
                   Some f \<Rightarrow> Some (Document, f)
                 | None \<Rightarrow>
                     if photo u \<noteq> [] then Some (Photo, last (photo u))
                     else (case video u of
                             Some f \<Rightarrow> Some (Video, f)
                           | None \<Rightarrow> None))
     in case file of
          None \<Rightarrow> say w b [] Reply_text (Reply Send_valid_file) (Some WAITING_FOR_FILE)
        | Some (kind, fid) \<Rightarrow>
            if raises w Insert_deadline then report w b [] Error_posting_deadline (Some END)
            else
              let new_id = next_rowid (deadlines_seq (db b)) (map deadline_id (deadlines (db b)));
                  row = \<lparr>deadline_id = new_id, title = t, message_id = 0,
                         chat_id = effective_chat_id u, file_id = fid, created_at = now w\<rparr>;
                  b1 = b\<lparr>db := (db b)\<lparr>deadlines := deadlines (db b) @ [row],
                                         deadlines_seq := new_id\<rparr>\<rparr>;
                  post = Send kind (effective_chat_id u) fid (Deadline_caption t) new_id
              in if raises w Send_file then report w b1 [post] Error_posting_deadline (Some END)
                 else if raises w Update_message_id
                 then report w b1 [post] Error_posting_deadline (Some END)
                 else
                   let b2 = b1\<lparr>db := (db b1)\<lparr>deadlines :=
                              map (\<lambda>d. if deadline_id d = new_id
                                        then d\<lparr>message_id := sent_message_id w\<rparr> else d)
                                  (deadlines (db b1))\<rparr>\<rparr>
                   in if raises w Reply_text
                      then report w b2 [post, Reply Deadline_posted] Error_posting_deadline
                             (Some END)
                      else finish (b2\<lparr>user_data := (user_data b2)(effective_user_id u := None)\<rparr>)
                             [post, Reply Deadline_posted] (Some END))"

definition cancel_deadline :: "world \<Rightarrow> update \<Rightarrow> bot \<Rightarrow> run" where
  "cancel_deadline w u b =
    say w (b\<lparr>user_data := (user_data b)(effective_user_id u := None)\<rparr>) []
      Reply_text (Reply Creation_cancelled) (Some END)"

subsection \<open>The completion button\<close>

text \<open>
  The handler is registered for \<^verbatim>\<open>callback_data\<close> matching \<^verbatim>\<open>^complete_\d+$\<close>, so
  \<^verbatim>\<open>int(callback_data.split("_")[1])\<close> is the number written in the button; the model
  takes that number and the id of the user who pressed.

  All statements run on one connection that is committed once, after the title was
  read. An exception before that leaves the function with the \<^verbatim>\<open>INSERT\<close> uncommitted,
  and the connection is dropped with it: nothing is stored. \<^verbatim>\<open>fetchone()[0]\<close> on a
  deadline id with no row is such an exception. The count is taken on the same
  connection, so it sees the new row.
\<close>

definition completion_failed :: "world \<Rightarrow> bot \<Rightarrow> outbound list \<Rightarrow> run" where
  "completion_failed w b tr =
    say w b tr Answer_error (Answer (Some Error_recording_completion) True) None"

definition completion_callback :: "world \<Rightarrow> int \<Rightarrow> int \<Rightarrow> bot \<Rightarrow> run" where
  "completion_callback w pressed_id user_id b =
    (let tr = [Answer None False]
     in if raises w Answer_query then escape b tr
        else if raises w Select_completion then completion_failed w b tr
        else if (pressed_id, user_id) \<in> set (completions (db b)) then
          (if raises w Answer_already
           then completion_failed w b (tr @ [Answer (Some Already_completed) True])
           else finish b (tr @ [Answer (Some Already_completed) True]) None)
        else if raises w Insert_completion then completion_failed w b tr
        else
          let rows = completions (db b) @ [(pressed_id, user_id)]
          in if raises w Count_completions then completion_failed w b tr
             else
               let completed_count = length (filter (\<lambda>(i, x). i = pressed_id) rows);
                   total_members = get_member_count w (db b)
               in if raises w Select_title then completion_failed w b tr
                  else case find (\<lambda>d. deadline_id d = pressed_id) (deadlines (db b)) of
                         None \<Rightarrow> completion_failed w b tr
                       | Some d \<Rightarrow>
                           if raises w Commit_completion then completion_failed w b tr
                           else
                             let b' = b\<lparr>db := (db b)\<lparr>completions := rows\<rparr>\<rparr>;
                                 tr' = tr @ [Edit_caption
                                               (Completed_caption (title d) completed_count
                                                  total_members) pressed_id];
                                 marked = Answer (Some (Marked_completed completed_count
                                                          total_members)) True
                             in if raises w Answer_marked
                                then completion_failed w b' (tr' @ [marked])
                                else finish b' (tr' @ [marked]) None)"

text \<open>A user pressing the button of one deadline again and again, each time in its own world.\<close>

fun completion_signals :: "world list \<Rightarrow> int \<Rightarrow> int \<Rightarrow> bot \<Rightarrow> bot" where
  "completion_signals [] pressed_id user_id b = b"
| "completion_signals (w # ws) pressed_id user_id b =
     completion_signals ws pressed_id user_id
       (bot_after (completion_callback w pressed_id user_id b))"

subsection \<open>Scheduled messages\<close>

text \<open>
  \<^verbatim>\<open>datetime.strptime\<close> is the world's \<open>strptime\<close>: \<open>None\<close> is its \<^verbatim>\<open>ValueError\<close>.
  The replies inside the \<^verbatim>\<open>try\<close> fall to \<^verbatim>\<open>except Exception\<close> when they raise; the
  two replies inside the \<^verbatim>\<open>except\<close> branches leave the handler when they raise.
\<close>

definition schedule_command :: "world \<Rightarrow> update \<Rightarrow> bot \<Rightarrow> run" where
  "schedule_command w u b =
    (if \<not> is_admin w u then say w b [] Reply_text (Reply (Only_admins ''schedule'')) None
     else if length (args u) < 3 then say w b [] Reply_text (Reply Schedule_usage) None
     else
       let date_str = args u ! 0;
           time_str = args u ! 1;
           msg = join (drop 2 (args u))
       in case strptime w (date_str @ '' '' @ time_str) of
            None \<Rightarrow> say w b [] Reply_error (Reply Invalid_format) None
          | Some scheduled_time \<Rightarrow>
              if scheduled_time \<le> now w then
                (if raises w Reply_text then report w b [Reply Must_be_future] Error_text None
                 else finish b [Reply Must_be_future] None)
              else if raises w Insert_schedule then report w b [] Error_text None
              else
                let new_id = next_rowid (schedules_seq (db b))
                               (map schedule_id (schedules (db b)));
                    row = \<lparr>schedule_id = new_id, run_time = scheduled_time, message = msg\<rparr>;
                    b1 = b\<lparr>db := (db b)\<lparr>schedules := schedules (db b) @ [row],
                                           schedules_seq := new_id\<rparr>\<rparr>
                in if raises w Run_once then report w b1 [] Error_text None
                   else
                     let b2 = b1\<lparr>job_queue := job_queue b1 @
                                [\<lparr>job_schedule_id = new_id, job_message = msg,
                                  job_chat_id = effective_chat_id u,
                                  job_when = scheduled_time\<rparr>]\<rparr>;
                         sent = Reply (Reminder_scheduled date_str time_str msg)
                     in if raises w Reply_text then report w b2 [sent] Error_text None
                        else finish b2 [sent] None)"

text \<open>The job's callback. Its \<^verbatim>\<open>except\<close> only prints.\<close>

definition send_scheduled_message :: "world \<Rightarrow> job \<Rightarrow> bot \<Rightarrow> run" where
  "send_scheduled_message w j b =
    (let mention_text = mention_links (get_all_member_ids w (db b));
         sent = Send_text (job_chat_id j) (Scheduled_reminder (job_message j) mention_text)
     in if raises w Send_message then finish b [sent] None
        else if raises w Delete_schedule then finish b [sent] None
        else finish (b\<lparr>db := (db b)\<lparr>schedules :=
                       filter (\<lambda>r. schedule_id r \<noteq> job_schedule_id j) (schedules (db b))\<rparr>\<rparr>)
               [sent] None)"

text \<open>\<^verbatim>\<open>run_once\<close>: when the time comes the queue takes the job out and calls it.\<close>

definition fire :: "world \<Rightarrow> job \<Rightarrow> bot \<Rightarrow> run" where
  "fire w j b = send_scheduled_message w j (b\<lparr>job_queue := remove1 j (job_queue b)\<rparr>)"

subsection \<open>Dispatch\<close>

text \<open>
  What \<^verbatim>\<open>main\<close> registers. The conversation handler keeps a handler's return value:
  \<^verbatim>\<open>END\<close> removes the session's entry, \<open>None\<close> and an exception leave it as it is, any
  other value becomes the session's state.
\<close>

definition update_state :: "int \<times> int \<Rightarrow> run \<Rightarrow> run" where
  "update_state key r =
    (case returned r of
       Raised \<Rightarrow> r
     | Returned None \<Rightarrow> r
     | Returned (Some new_state) \<Rightarrow>
         r\<lparr>bot_after := (bot_after r)\<lparr>conversations :=
              (conversations (bot_after r))
                (key := (if new_state = END then None else Some new_state))\<rparr>\<rparr>)"

text \<open>
  \<^verbatim>\<open>entry_points\<close> are tried for a session with no entry; for a session in
  \<^verbatim>\<open>WAITING_FOR_FILE\<close> the state's one handler, registered with the filter
  \<^verbatim>\<open>Document.ALL | PHOTO | VIDEO\<close>, then the fallback \<^verbatim>\<open>/cancel\<close>. When none matches the
  conversation handler does not take the update (\<open>None\<close>).
\<close>

definition deadline_conv :: "world \<Rightarrow> update \<Rightarrow> bot \<Rightarrow> run option" where
  "deadline_conv w u b =
    (let key = (effective_chat_id u, effective_user_id u)
     in case conversations b key of
          None \<Rightarrow>
            if command u = Some ''deadline'' then Some (update_state key (deadline_command w u b))
            else None
        | Some state \<Rightarrow>
            if state = WAITING_FOR_FILE \<and>
               (document u \<noteq> None \<or> photo u \<noteq> [] \<or> video u \<noteq> None)
            then Some (update_state key (deadline_receive_file w u b))
            else if command u = Some ''cancel''
            then Some (update_state key (cancel_deadline w u b))
            else None)"

text \<open>
  All handlers are in one group, so a message goes to the first one that matches, in
  the order \<^verbatim>\<open>main\<close> adds them; \<^verbatim>\<open>auto_register_member\<close> with \<^verbatim>\<open>filters.ALL\<close> is last.
\<close>

definition process_update :: "world \<Rightarrow> update \<Rightarrow> bot \<Rightarrow> run" where
  "process_update w u b =
    (if command u = Some ''start'' then start w u b
     else if command u = Some ''help'' then help_command w u b
     else if command u = Some ''mention'' then mention_command w u b
     else if command u = Some ''tagall'' then mention_command w u b
     else if command u = Some ''status'' then status_command w u b
     else if command u = Some ''schedule'' then schedule_command w u b
     else case deadline_conv w u b of
            Some r \<Rightarrow> r
          | None \<Rightarrow> auto_register_member w u b)"

subsection \<open>Reading a run, and a sample world\<close>

text \<open>
  The mention text carried by a message, if it has one, and the mention texts that the
  calls of a run put into the chat (by \<^verbatim>\<open>reply_text\<close> or \<^verbatim>\<open>send_message\<close>).
\<close>

fun mention_list :: "content \<Rightarrow> mention_text option" where
  "mention_list (Notification m ms) = Some ms"
| "mention_list (Mention_all ms) = Some ms"
| "mention_list (Reminder t n ms) = Some ms"
| "mention_list (Scheduled_reminder m ms) = Some ms"
| "mention_list c = None"

fun broadcast :: "outbound \<Rightarrow> mention_text option" where
  "broadcast (Reply c) = mention_list c"
| "broadcast (Send_text chat c) = mention_list c"
| "broadcast x = None"

definition broadcasts :: "outbound list \<Rightarrow> mention_text list" where
  "broadcasts tr = List.map_filter broadcast tr"

text \<open>
  A world where no call raises; user 1387393147 created the group, everyone else is a
  plain member; the clock stands at 1000 and one date string parses, to 2000.
\<close>

definition calm :: world where
  "calm = \<lparr>raises = (\<lambda>c. False),
            member_status = (\<lambda>chat user. if user = 1387393147 then ''creator'' else ''member''),
            now = 1000,
            strptime = (\<lambda>x. if x = ''2026-02-15 09:00'' then Some 2000 else None),
            sent_message_id = 77\<rparr>"

definition failing :: "call list \<Rightarrow> world" where
  "failing cs = calm\<lparr>raises := (\<lambda>c. c \<in> set cs)\<rparr>"

definition empty_store :: store where
  "empty_store = \<lparr>members = [], deadlines = [], completions = [], schedules = [],
                   deadlines_seq = 0, schedules_seq = 0\<rparr>"

definition fresh :: bot where
  "fresh = \<lparr>db = empty_store, conversations = (\<lambda>k. None), user_data = (\<lambda>k. None),
             job_queue = []\<rparr>"

definition message_from :: "int \<Rightarrow> update" where
  "message_from user = \<lparr>effective_chat_id = - 100, effective_chat_type = ''supergroup'',
      effective_user_id = user, effective_user_first_name = ''Asha'',
      effective_user_is_bot = False, command = None, args = [],
      document = None, photo = [], video = None\<rparr>"

text \<open>A store where one deadline has been posted and nobody has completed it.\<close>

definition posted :: bot where
  "posted = fresh\<lparr>db := empty_store\<lparr>deadlines :=
      [\<lparr>deadline_id = 1, title = ''HW1'', message_id = 77, chat_id = - 100,
        file_id = ''file-1'', created_at = 900\<rparr>], deadlines_seq := 1\<rparr>\<rparr>"

definition registered :: store where
  "registered = empty_store\<lparr>members := [(42, ''Zed''), (1387393147, ''Vamsi'')]\<rparr>"

definition tagall :: update where
  "tagall = (message_from 1387393147)\<lparr>command := Some ''tagall''\<rparr>"

text \<open>
  The caption edits of a run, and the \<open>completed / total\<close> pair of those that write a
  tally.
\<close>

fun caption_edit :: "outbound \<Rightarrow> content option" where
  "caption_edit (Edit_caption c i) = Some c"
| "caption_edit x = None"

fun tally :: "outbound \<Rightarrow> (nat \<times> nat) option" where
  "tally (Edit_caption (Completed_caption t c n) i) = Some (c, n)"
| "tally x = None"

text \<open>
  A completion signal is successful when the handler gets as far as its
  \<^verbatim>\<open>conn.commit()\<close> and that call returns.
\<close>

definition commits :: "world \<Rightarrow> int \<Rightarrow> int \<Rightarrow> bot \<Rightarrow> bool" where
  "commits w i x b \<longleftrightarrow>
     \<not> raises w Answer_query \<and> \<not> raises w Select_completion \<and>
     (i, x) \<notin> set (completions (db b)) \<and> \<not> raises w Insert_completion \<and>
     \<not> raises w Count_completions \<and> \<not> raises w Select_title \<and>
     find (\<lambda>d. deadline_id d = i) (deadlines (db b)) \<noteq> None \<and>
     \<not> raises w Commit_completion"

text \<open>The same store after two users, one of them outside the seed list, completed it.\<close>

definition half_done :: bot where
  "half_done = posted\<lparr>db := (db posted)\<lparr>completions := [(1, 1387393147), (1, 42)]\<rparr>\<rparr>"

text \<open>
  An administrator's \<^verbatim>\<open>/deadline\<close> message with one argument, and a document from that
  user. With them the administrator posts two deadlines while the clock stands still,
  and then every member of the seed list presses the button of the first one.
\<close>

definition deadline_titled :: "string \<Rightarrow> update" where
  "deadline_titled t = (message_from 1387393147)\<lparr>command := Some ''deadline'', args := [t]\<rparr>"

definition file_message :: update where
  "file_message = (message_from 1387393147)\<lparr>document := Some ''file-9''\<rparr>"

definition two_in_one_second :: bot where
  "two_in_one_second =
     bot_after (process_update calm file_message
       (bot_after (process_update calm (deadline_titled ''Second'')
         (bot_after (process_update calm file_message
           (bot_after (process_update calm (deadline_titled ''First'') fresh)))))))"

definition first_completed :: bot where
  "first_completed =
     fold (\<lambda>(user_id, name) b. bot_after (completion_callback calm 1 user_id b))
       MEMBERS two_in_one_second"

text \<open>An administrator's schedule request for the one date that parses.\<close>

definition schedule_request :: update where
  "schedule_request = (message_from 1387393147)\<lparr>command := Some ''schedule'',
      args := [''2026-02-15'', ''09:00'', ''Class'', ''today!'']\<rparr>"

text \<open>
  An administrator who has sent \<^verbatim>\<open>/deadline Essay\<close> and is asked for the file; a plain
  text message from that user; a \<^verbatim>\<open>/deadline Essay\<close> request from any user.
\<close>

definition waiting :: bot where
  "waiting = fresh\<lparr>conversations := (\<lambda>k. None)((- 100, 1387393147) \<mapsto> WAITING_FOR_FILE),
                   user_data := (\<lambda>k. None)(1387393147 \<mapsto> ''Essay'')\<rparr>"

definition text_message :: update where
  "text_message = message_from 1387393147"

definition deadline_request :: "int \<Rightarrow> update" where
  "deadline_request user = (message_from user)\<lparr>command := Some ''deadline'', args := [''Essay'']\<rparr>"

subsection \<open>Facts about the roster\<close>

lemma seed_dict: "fold (\<lambda>(user_id, name) d. AList.update user_id name d) MEMBERS [] = MEMBERS"
  by (simp add: MEMBERS_def)

lemma overlay_map_of:
  "map_of (fold (\<lambda>(k, v) d. AList.update k v d) rows d) = map_of d ++ map_of (rev rows)"
proof (induction rows arbitrary: d)
  case Nil
  show ?case by simp
next
  case (Cons r rows)
  obtain k v where r: "r = (k, v)" by (cases r)
  have "map_of (AList.update k v d) ++ map_of (rev rows)
        = map_of d ++ ([k \<mapsto> v] ++ map_of (rev rows))"
    by (rule ext) (simp add: update_conv' map_add_def split: option.splits)
  with Cons.IH [of "AList.update k v d"] show ?case
    by (simp add: r)
qed

lemma overlay_keys:
  "fst ` set (fold (\<lambda>(k, v) d. AList.update k v d) rows d) = fst ` set d \<union> fst ` set rows"
proof (induction rows arbitrary: d)
  case Nil
  show ?case by simp
next
  case (Cons r rows)
  obtain k v where r: "r = (k, v)" by (cases r)
  from Cons.IH [of "AList.update k v d"] show ?case
    by (auto simp: r dom_update)
qed

lemma overlay_distinct:
  "distinct (map fst d) \<Longrightarrow> distinct (map fst (fold (\<lambda>(k, v) d. AList.update k v d) rows d))"
proof (induction rows arbitrary: d)
  case Nil
  then show ?case by simp
next
  case (Cons r rows)
  obtain k v where r: "r = (k, v)" by (cases r)
  from Cons.prems have "distinct (map fst (AList.update k v d))"
    by (rule distinct_update)
  from Cons.IH [OF this] show ?case
    by (simp add: r)
qed

lemma seed_distinct: "distinct (map fst MEMBERS)"
  by (simp add: MEMBERS_def)

lemma roster_distinct: "distinct (map fst (get_all_member_ids w s))"
  by (simp add: get_all_member_ids_def seed_dict seed_distinct overlay_distinct)

lemma roster_keys:
  "fst ` set (get_all_member_ids w s) =
     (if raises w Select_members then fst ` set MEMBERS
      else fst ` set MEMBERS \<union> fst ` set (members s))"
  by (simp add: get_all_member_ids_def seed_dict overlay_keys)

lemma roster_length_ge: "8 \<le> length (get_all_member_ids w s)"
proof -
  have "card (fst ` set MEMBERS) = 8"
    by (simp add: MEMBERS_def)
  moreover have "fst ` set MEMBERS \<subseteq> fst ` set (get_all_member_ids w s)"
    by (auto simp: roster_keys)
  ultimately have "8 \<le> card (fst ` set (get_all_member_ids w s))"
    by (metis card_mono finite_imageI finite_set)
  also have "\<dots> = length (get_all_member_ids w s)"
    using roster_distinct [of w s] by (metis distinct_card length_map set_map)
  finally show ?thesis .
qed


lemma map_of_rev_distinct: "distinct (map fst xs) \<Longrightarrow> map_of (rev xs) = map_of xs"
proof (induction xs)
  case Nil
  show ?case by simp
next
  case (Cons x xs)
  obtain k v where x: "x = (k, v)" by (cases x)
  from Cons.prems have k: "map_of xs k = None"
    by (simp add: x map_of_eq_None_iff)
  from Cons have "map_of (rev xs) = map_of xs" by simp
  with k show ?case
    by (auto simp: x map_add_def fun_eq_iff split: option.splits)
qed

text \<open>
  C6. When the members table can be read, the roster is the seed list overlaid with the
  table's rows in order: as a mapping it is the seed mapping overridden by the rows, so
  the table's name wins wherever both have the id (for a table with unique ids, as its
  primary key makes it, that is the seed mapping overridden by the table's mapping).
  When the read raises, the roster is the seed list itself and nothing is raised.
\<close>

theorem roster_resolution:
  "(\<not> raises w Select_members \<longrightarrow>
      map_of (get_all_member_ids w s) = map_of MEMBERS ++ map_of (rev (members s)))
   \<and> (\<not> raises w Select_members \<longrightarrow> distinct (map fst (members s)) \<longrightarrow>
      map_of (get_all_member_ids w s) = map_of MEMBERS ++ map_of (members s))
   \<and> (raises w Select_members \<longrightarrow> get_all_member_ids w s = MEMBERS)
   \<and> distinct (map fst (get_all_member_ids w s))"
  by (simp add: get_all_member_ids_def seed_dict overlay_map_of map_of_rev_distinct
        seed_distinct overlay_distinct)

theorem roster_resolution_witness:
  "\<not> raises calm Select_members \<and> distinct (map fst (members registered))
   \<and> map_of (get_all_member_ids calm registered) 1387393147 = Some ''Vamsi''
   \<and> map_of (get_all_member_ids calm registered) 42 = Some ''Zed''
   \<and> map_of (get_all_member_ids calm registered) 103419413 = Some ''Pavan''
   \<and> raises (failing [Select_members]) Select_members
   \<and> get_all_member_ids (failing [Select_members]) registered = MEMBERS"
  using roster_resolution [of calm registered]
    roster_resolution [of "failing [Select_members]" registered]
  by (simp add: calm_def failing_def registered_def empty_store_def MEMBERS_def)

subsection \<open>The mention broadcast\<close>

text \<open>
  C10. In a group, for a caller who is an administrator, the mention command broadcasts
  one mention text, and it has a link for every member of the resolved roster, in roster
  order: nobody is filtered out, and in particular the three ids of \<open>ADMINS\<close> are
  mentioned. No handler reads \<open>ADMINS\<close>.
\<close>

theorem mention_includes_admins:
  assumes "effective_chat_type u \<in> set [''group'', ''supergroup'']" and "is_admin w u"
  shows "broadcasts (calls (mention_command w u b))
           = [mention_links (get_all_member_ids w (db b))]
       \<and> snd ` set (mention_links (get_all_member_ids w (db b)))
           = fst ` set (get_all_member_ids w (db b))
       \<and> set ADMINS \<subseteq> snd ` set (mention_links (get_all_member_ids w (db b)))"
proof -
  let ?r = "get_all_member_ids w (db b)"
  have ne: "?r \<noteq> []"
    using roster_length_ge [of w "db b"] by auto
  have adm: "set ADMINS \<subseteq> fst ` set ?r"
    by (auto simp: roster_keys ADMINS_def MEMBERS_def)
  have links: "snd ` set (mention_links ?r) = fst ` set ?r"
    by (force simp: mention_links_def)
  have "broadcasts (calls (mention_command w u b)) = [mention_links ?r]"
    using assms ne
    by (simp add: mention_command_def Let_def finish_def escape_def broadcasts_def)
  with adm links show ?thesis
    by simp
qed

theorem mention_includes_admins_witness:
  "effective_chat_type tagall \<in> set [''group'', ''supergroup''] \<and> is_admin calm tagall
   \<and> broadcasts (calls (mention_command calm tagall fresh)) =
      [[(''Vamsee'', 1387393147), (''Umesh'', 8095569186),
        (''Chetan'', 6931175630), (''Yashwanth'', 6544711761),
        (''Karthik'', 5477604530), (''Sanjith'', 6643208192),
        (''Raghunandan'', 5801384729), (''Pavan'', 103419413)]]"
  using mention_includes_admins [of tagall calm fresh]
  by (simp add: tagall_def message_from_def is_admin_def calm_def fresh_def empty_store_def
       get_all_member_ids_def seed_dict mention_links_def MEMBERS_def ADMINS_def)

subsection \<open>The completion ledger\<close>

lemmas run_simps = say_def finish_def escape_def report_def completion_failed_def

lemma completion_callback_bot:
  "bot_after (completion_callback w i x b) =
     (if commits w i x b
      then b\<lparr>db := (db b)\<lparr>completions := completions (db b) @ [(i, x)]\<rparr>\<rparr> else b)"
  unfolding completion_callback_def commits_def Let_def run_simps
  by (simp split: option.splits)

lemma completion_callback_tally:
  "List.map_filter tally (calls (completion_callback w i x b)) =
     (if commits w i x b
      then [(length (filter (\<lambda>(d, u). d = i) (completions (db b) @ [(i, x)])),
             get_member_count w (db b))]
      else [])"
  unfolding completion_callback_def commits_def Let_def run_simps
  by (simp split: option.splits)

lemma completion_callback_edits:
  "\<not> commits w i x b \<Longrightarrow> List.map_filter caption_edit (calls (completion_callback w i x b)) = []"
  unfolding completion_callback_def commits_def Let_def run_simps
  by (auto split: option.splits)

lemma completion_callback_already:
  "(i, x) \<in> set (completions (db b)) \<Longrightarrow> \<not> raises w Answer_query \<Longrightarrow> \<not> raises w Select_completion \<Longrightarrow>
    calls (completion_callback w i x b) =
      [Answer None False, Answer (Some Already_completed) True] @
      (if raises w Answer_already then [Answer (Some Error_recording_completion) True] else [])"
  unfolding completion_callback_def Let_def run_simps
  by simp


lemma count_pair:
  "count_list (completions (db (completion_signals ws i x b))) (i, x)
     \<le> max 1 (count_list (completions (db b)) (i, x))"
proof (induction ws arbitrary: b)
  case Nil
  show ?case by simp
next
  case (Cons w ws)
  let ?b = "bot_after (completion_callback w i x b)"
  have "max 1 (count_list (completions (db ?b)) (i, x)) \<le> max 1 (count_list (completions (db b)) (i, x))"
    by (auto simp: completion_callback_bot commits_def count_list_0_iff)
  with Cons.IH [of ?b] show ?case
    by simp
qed

lemma count_deadline:
  "length (filter (\<lambda>(d, u). d = i) (completions (db (completion_signals ws i x b))))
     \<le> length (filter (\<lambda>(d, u). d = i) (completions (db b))) +
        (if (i, x) \<in> set (completions (db b)) then 0 else 1)"
proof (induction ws arbitrary: b)
  case Nil
  show ?case by simp
next
  case (Cons w ws)
  let ?b = "bot_after (completion_callback w i x b)"
  show ?case
  proof (cases "commits w i x b")
    case True
    then have "completions (db ?b) = completions (db b) @ [(i, x)]"
      by (simp add: completion_callback_bot)
    with Cons.IH [of ?b] True show ?thesis
      by (simp add: commits_def)
  next
    case False
    then have "?b = b"
      by (simp add: completion_callback_bot)
    with Cons.IH [of ?b] show ?thesis
      by simp
  qed
qed


lemma rows_of_deadline:
  assumes "distinct rows"
  shows "length (filter (\<lambda>(d, u). d = i) rows) = card {u. (i, u) \<in> set rows}"
proof -
  have "{u. (i, u) \<in> set rows} = snd ` set (filter (\<lambda>(d, u). d = i) rows)"
    by force
  moreover have "inj_on snd (set (filter (\<lambda>(d, u). d = i) rows))"
    by (auto simp: inj_on_def)
  moreover from assms have "distinct (filter (\<lambda>(d, u). d = i) rows)"
    by simp
  ultimately show ?thesis
    by (metis card_image distinct_card)
qed

lemma roster_size:
  "length (get_all_member_ids w s) = card (fst ` set (get_all_member_ids w s))"
  using roster_distinct [of w s] by (metis distinct_card length_map set_map)

text \<open>
  C1. However often one user presses the completion button of one deadline, and whatever
  fails on the way, the store ends with at most one row for that (deadline, user) pair
  (when it started with at most one), the pair's row count and the deadline's row count
  grow by at most one over the whole sequence. A signal for a pair that already has its
  row leaves the state as it is, edits no caption and is answered with "already
  completed"; a signal that reaches its commit appends exactly the pair's row.
\<close>

theorem completion_idempotent:
  "count_list (completions (db (completion_signals ws i x b))) (i, x)
     \<le> max 1 (count_list (completions (db b)) (i, x))
   \<and> count_list (completions (db (completion_signals ws i x b))) (i, x)
     \<le> count_list (completions (db b)) (i, x) + 1
   \<and> length (filter (\<lambda>(d, u). d = i) (completions (db (completion_signals ws i x b))))
     \<le> length (filter (\<lambda>(d, u). d = i) (completions (db b))) + 1
   \<and> ((i, x) \<in> set (completions (db b)) \<longrightarrow>
        bot_after (completion_callback w i x b) = b \<and>
        List.map_filter caption_edit (calls (completion_callback w i x b)) = [] \<and>
        (\<not> raises w Answer_query \<and> \<not> raises w Select_completion \<longrightarrow>
           Answer (Some Already_completed) True \<in> set (calls (completion_callback w i x b))))
   \<and> (commits w i x b \<longrightarrow>
        completions (db (bot_after (completion_callback w i x b)))
          = completions (db b) @ [(i, x)])"
proof -
  have a: "count_list (completions (db (completion_signals ws i x b))) (i, x)
     \<le> max 1 (count_list (completions (db b)) (i, x))"
    by (rule count_pair)
  have b: "length (filter (\<lambda>(d, u). d = i) (completions (db (completion_signals ws i x b))))
     \<le> length (filter (\<lambda>(d, u). d = i) (completions (db b))) + 1"
    using count_deadline [of i ws x b] by (simp split: if_splits)
  have c: "bot_after (completion_callback w i x b) = b \<and>
        List.map_filter caption_edit (calls (completion_callback w i x b)) = []"
    if "(i, x) \<in> set (completions (db b))"
    using that by (simp add: completion_callback_bot completion_callback_edits commits_def)
  have d: "Answer (Some Already_completed) True \<in> set (calls (completion_callback w i x b))"
    if "(i, x) \<in> set (completions (db b))" "\<not> raises w Answer_query" "\<not> raises w Select_completion"
    using that by (simp add: completion_callback_already)
  have e: "completions (db (bot_after (completion_callback w i x b)))
          = completions (db b) @ [(i, x)]" if "commits w i x b"
    using that by (simp add: completion_callback_bot)
  from a have a': "count_list (completions (db (completion_signals ws i x b))) (i, x)
     \<le> count_list (completions (db b)) (i, x) + 1"
    by linarith
  from a a' b c d e show ?thesis
    by blast
qed

theorem completion_idempotent_witness:
  "commits calm 1 5 posted
   \<and> completions (db (bot_after (completion_callback calm 1 5 posted))) = [(1, 5)]
   \<and> (1, 5) \<in> set (completions (db (bot_after (completion_callback calm 1 5 posted))))
   \<and> \<not> raises calm Answer_query \<and> \<not> raises calm Select_completion
   \<and> bot_after (completion_callback calm 1 5 (bot_after (completion_callback calm 1 5 posted)))
        = bot_after (completion_callback calm 1 5 posted)
   \<and> Answer (Some Already_completed) True
        \<in> set (calls (completion_callback calm 1 5 (bot_after (completion_callback calm 1 5 posted))))
   \<and> count_list (completions (db (completion_signals [calm, calm, calm] 1 5 posted))) (1, 5) \<le> 1"
proof -
  have c: "commits calm 1 5 posted"
    by (simp add: commits_def calm_def posted_def fresh_def empty_store_def)
  have p: "completions (db posted) = []"
    by (simp add: posted_def fresh_def empty_store_def)
  from c p completion_idempotent [of "[calm, calm, calm]" 1 5 posted calm]
  have first: "completions (db (bot_after (completion_callback calm 1 5 posted))) = [(1, 5)]"
    and cnt: "count_list (completions (db (completion_signals [calm, calm, calm] 1 5 posted))) (1, 5) \<le> 1"
    by simp_all
  have q: "\<not> raises calm Answer_query \<and> \<not> raises calm Select_completion"
    by (simp add: calm_def)
  from first q completion_idempotent [of "[]" 1 5 "bot_after (completion_callback calm 1 5 posted)" calm]
  have "bot_after (completion_callback calm 1 5 (bot_after (completion_callback calm 1 5 posted)))
        = bot_after (completion_callback calm 1 5 posted)
      \<and> Answer (Some Already_completed) True
        \<in> set (calls (completion_callback calm 1 5 (bot_after (completion_callback calm 1 5 posted))))"
    by simp
  with c first cnt q show ?thesis
    by simp
qed

lemma roster_completions:
  "get_all_member_ids w (s\<lparr>completions := c\<rparr>) = get_all_member_ids w s"
  by (simp add: get_all_member_ids_def Let_def)

text \<open>
  C2. The caption written by a completion signal carries a tally exactly when the signal
  is successful, and then it is (number of completion rows of that deadline in the store
  after the signal) / (length of the roster resolved from that store). With the primary
  key in force that number of rows is the number of distinct users with a row, and the
  roster length is the number of distinct ids in the seed list and the members table
  (the seed list alone when the members table cannot be read). The bot's state has no
  field that could cache either number.
\<close>

theorem tally_recomputed:
  "List.map_filter tally (calls (completion_callback w i x b)) =
     (if commits w i x b
      then [(length (filter (\<lambda>(d, u). d = i)
                       (completions (db (bot_after (completion_callback w i x b))))),
             length (get_all_member_ids w (db (bot_after (completion_callback w i x b)))))]
      else [])
   \<and> (distinct (completions s) \<longrightarrow>
        length (filter (\<lambda>(d, u). d = i) (completions s)) = card {u. (i, u) \<in> set (completions s)})
   \<and> length (get_all_member_ids w s) =
        (if raises w Select_members then card (fst ` set MEMBERS)
         else card (fst ` set MEMBERS \<union> fst ` set (members s)))"
proof -
  have "List.map_filter tally (calls (completion_callback w i x b)) =
     (if commits w i x b
      then [(length (filter (\<lambda>(d, u). d = i)
                       (completions (db (bot_after (completion_callback w i x b))))),
             length (get_all_member_ids w (db (bot_after (completion_callback w i x b)))))]
      else [])"
    by (simp add: completion_callback_tally completion_callback_bot get_member_count_def
          roster_completions)
  moreover have "length (get_all_member_ids w s) =
        (if raises w Select_members then card (fst ` set MEMBERS)
         else card (fst ` set MEMBERS \<union> fst ` set (members s)))"
    by (simp add: roster_size roster_keys)
  ultimately show ?thesis
    using rows_of_deadline [of "completions s" i] by simp
qed

theorem tally_recomputed_witness:
  "commits calm 1 5 posted
   \<and> List.map_filter tally (calls (completion_callback calm 1 5 posted)) = [(1, 8)]
   \<and> distinct (completions (db (bot_after (completion_callback calm 1 5 posted))))
   \<and> card {u. (1, u) \<in> set (completions (db (bot_after (completion_callback calm 1 5 posted))))} = 1"
proof -
  have c: "commits calm 1 5 posted"
    by (simp add: commits_def calm_def posted_def fresh_def empty_store_def)
  have after: "completions (db (bot_after (completion_callback calm 1 5 posted))) = [(1, 5)]"
    by (simp add: completion_callback_bot c) (simp add: posted_def fresh_def empty_store_def)
  have r: "length (get_all_member_ids calm (db (bot_after (completion_callback calm 1 5 posted)))) = 8"
    by (simp add: completion_callback_bot c get_all_member_ids_def seed_dict)
       (simp add: posted_def fresh_def empty_store_def calm_def MEMBERS_def)
  from c after r
    tally_recomputed [of calm 1 5 posted "db (bot_after (completion_callback calm 1 5 posted))"]
  show ?thesis
    by simp
qed

subsection \<open>The reminder\<close>

lemma latest_fold:
  "fold (\<lambda>x best. if created_at best < created_at x then x else best) rs r \<in> set (r # rs)
   \<and> (\<forall>d \<in> set (r # rs).
        created_at d \<le> created_at (fold (\<lambda>x best. if created_at best < created_at x then x else best) rs r))"
proof (induction rs arbitrary: r)
  case Nil
  show ?case by simp
next
  case (Cons x rs)
  let ?r = "if created_at r < created_at x then x else r"
  from Cons.IH [of ?r] show ?case
    by (auto split: if_splits)
qed

lemma latest_deadline:
  assumes "deadlines s \<noteq> []" and "\<not> raises w Select_latest_deadline"
  shows "\<exists>d \<in> set (deadlines s).
           get_latest_deadline w s = Some (deadline_id d, title d, created_at d) \<and>
           (\<forall>e \<in> set (deadlines s). created_at e \<le> created_at d)"
proof -
  from assms obtain r rs where rs: "deadlines s = r # rs"
    by (cases "deadlines s") auto
  let ?d = "fold (\<lambda>x best. if created_at best < created_at x then x else best) rs r"
  from latest_fold [of rs r] rs have "?d \<in> set (deadlines s)"
    and "\<forall>e \<in> set (deadlines s). created_at e \<le> created_at ?d"
    by simp_all
  moreover from assms rs have "get_latest_deadline w s = Some (deadline_id ?d, title ?d, created_at ?d)"
    by (simp add: get_latest_deadline_def Let_def)
  ultimately show ?thesis
    by blast
qed

lemma remind_calls:
  assumes "get_latest_deadline w (db b) = Some (i, t, c)" and "\<not> raises w Select_completed_users"
  shows "calls (deadline_remind w u b) =
     (let pending = filter (\<lambda>(user_id, first_name). (i, user_id) \<notin> set (completions (db b)))
                      (get_all_member_ids w (db b))
      in Reply (if pending = [] then Everyone_completed t
                else Reminder t (length pending) (mention_links pending))
         # (if raises w Reply_text then [Reply Error_text] else []))"
proof -
  have eq: "filter (\<lambda>(user_id, first_name).
                user_id \<notin> snd ` {x \<in> set (completions (db b)). case x of (j, x) \<Rightarrow> j = i}) ms
      = filter (\<lambda>(user_id, first_name). (i, user_id) \<notin> set (completions (db b))) ms" for ms
    by (rule filter_cong) force+
  from assms show ?thesis
    unfolding deadline_remind_def run_simps Let_def
    by (simp add: eq)
qed

text \<open>
  What holds in general: when the store has a deadline row and its reads succeed, the
  remind operation takes a row whose creation time no other row exceeds, and its reply
  is built from the pending members, the roster members, in roster order, whose id has
  no completion row for that deadline. If there are none the reply is "everyone has
  completed" and no mention text is broadcast; otherwise the reminder carries the
  mention text of exactly the pending members and their number.
\<close>

lemma remind_pending:
  assumes "deadlines (db b) \<noteq> []"
    and "\<not> raises w Select_latest_deadline" and "\<not> raises w Select_completed_users"
  shows "case get_latest_deadline w (db b) of
           None \<Rightarrow> False
         | Some (i, t, c) \<Rightarrow>
             (\<exists>d \<in> set (deadlines (db b)). deadline_id d = i \<and> title d = t \<and> created_at d = c) \<and>
             (\<forall>d \<in> set (deadlines (db b)). created_at d \<le> c) \<and>
             (let pending = filter (\<lambda>(user_id, first_name). (i, user_id) \<notin> set (completions (db b)))
                              (get_all_member_ids w (db b))
              in broadcasts (calls (deadline_remind w u b))
                   = (if pending = [] then [] else [mention_links pending]) \<and>
                 hd (calls (deadline_remind w u b))
                   = Reply (if pending = [] then Everyone_completed t
                            else Reminder t (length pending) (mention_links pending)))"
proof -
  from latest_deadline [OF assms(1,2)] obtain d where d: "d \<in> set (deadlines (db b))"
    "get_latest_deadline w (db b) = Some (deadline_id d, title d, created_at d)"
    "\<forall>e \<in> set (deadlines (db b)). created_at e \<le> created_at d"
    by blast
  from remind_calls [OF d(2) assms(3), of u] d show ?thesis
    by (auto simp: Let_def broadcasts_def)
qed

lemma remind_pending_example:
  "deadlines (db half_done) \<noteq> []
   \<and> \<not> raises calm Select_latest_deadline \<and> \<not> raises calm Select_completed_users
   \<and> get_latest_deadline calm (db half_done) = Some (1, ''HW1'', 900)
   \<and> broadcasts (calls (deadline_remind calm tagall half_done)) =
      [[(''Umesh'', 8095569186),
        (''Chetan'', 6931175630), (''Yashwanth'', 6544711761),
        (''Karthik'', 5477604530), (''Sanjith'', 6643208192),
        (''Raghunandan'', 5801384729), (''Pavan'', 103419413)]]"
proof -
  have h: "deadlines (db half_done) \<noteq> []"
    "\<not> raises calm Select_latest_deadline" "\<not> raises calm Select_completed_users"
    by (simp_all add: half_done_def posted_def fresh_def empty_store_def calm_def)
  have l: "get_latest_deadline calm (db half_done) = Some (1, ''HW1'', 900)"
    by (simp add: get_latest_deadline_def half_done_def posted_def fresh_def empty_store_def calm_def)
  have r: "get_all_member_ids calm (db half_done) = MEMBERS"
    by (simp add: get_all_member_ids_def seed_dict half_done_def posted_def fresh_def
          empty_store_def calm_def)
  have c: "completions (db half_done) = [(1, 1387393147), (1, 42)]"
    by (simp add: half_done_def)
  from remind_pending [OF h, of tagall] h l show ?thesis
    by (simp add: r c MEMBERS_def mention_links_def)
qed

text \<open>
  C3. The claim fails on the program when the two latest deadlines were created within
  the same second. \<^verbatim>\<open>get_latest_deadline\<close>, documented as "Get the most recent deadline",
  orders by \<open>created_at\<close> alone, and \<^verbatim>\<open>CURRENT_TIMESTAMP\<close> counts whole seconds: of
  two rows with the same timestamp it returns the one with the smaller id, the older
  one. After an administrator posted "First" and "Second" within one second and all
  eight seed members completed "First", \<^verbatim>\<open>/deadline remind\<close> answers that everyone has
  completed "First" and mentions nobody, while all eight are pending on "Second", the
  deadline created last.
\<close>

theorem remind_tie_takes_older:
  "map (\<lambda>d. (deadline_id d, title d, created_at d)) (deadlines (db first_completed))
     = [(1, ''First'', 1000), (2, ''Second'', 1000)]
   \<and> get_latest_deadline calm (db first_completed) = Some (1, ''First'', 1000)
   \<and> calls (process_update calm (deadline_titled ''remind'') first_completed)
     = [Reply (Everyone_completed ''First'')]
   \<and> broadcasts (calls (process_update calm (deadline_titled ''remind'') first_completed)) = []
   \<and> map fst (filter (\<lambda>(user_id, first_name). (2, user_id) \<notin> set (completions (db first_completed)))
                 (get_all_member_ids calm (db first_completed)))
     = [1387393147, 8095569186, 6931175630, 6544711761, 5477604530, 6643208192,
        5801384729, 103419413]"
proof -
  have "map (\<lambda>d. (deadline_id d, title d, created_at d)) (deadlines (db first_completed))
     = [(1, ''First'', 1000), (2, ''Second'', 1000)]"
    by code_simp
  moreover have "get_latest_deadline calm (db first_completed) = Some (1, ''First'', 1000)"
    by code_simp
  moreover have "calls (process_update calm (deadline_titled ''remind'') first_completed)
     = [Reply (Everyone_completed ''First'')]"
    by code_simp
  moreover have
    "broadcasts (calls (process_update calm (deadline_titled ''remind'') first_completed)) = []"
    by code_simp
  moreover have
    "map fst (filter (\<lambda>(user_id, first_name). (2, user_id) \<notin> set (completions (db first_completed)))
                 (get_all_member_ids calm (db first_completed)))
     = [1387393147, 8095569186, 6931175630, 6544711761, 5477604530, 6643208192,
        5801384729, 103419413]"
    by code_simp
  ultimately show ?thesis
    by simp
qed

subsection \<open>The roster is never empty\<close>

lemma tally_denominator:
  "(c, n) \<in> set (List.map_filter tally (calls (completion_callback w i x b))) \<Longrightarrow> 8 \<le> n"
  using roster_length_ge [of w "db b"]
  by (simp add: completion_callback_tally get_member_count_def split: if_splits)

lemma statistics_total:
  "Reply (Group_statistics m k l) \<in> set (calls (status_command w u b)) \<Longrightarrow> 8 \<le> m"
  using roster_length_ge [of w "db b"]
  unfolding status_command_def run_simps Let_def
  by (auto simp: get_member_count_def split: if_splits)

lemma status_total:
  "Reply (Deadline_status rows) \<in> set (calls (deadline_status w u b)) \<Longrightarrow>
     (t, c, p) \<in> set rows \<Longrightarrow> 8 \<le> p + int c"
  using roster_length_ge [of w "db b"]
  unfolding deadline_status_def run_simps Let_def
  by (auto simp: get_member_count_def split: if_splits)

text \<open>
  C9. Whatever the store holds and whether or not it can be read, the roster contains
  every id of the seed list, so it has at least 8 entries and is never empty: the
  "no members registered" reply of the mention command is never sent, every tally
  written to a caption has a denominator of at least 8, and so have the member totals
  of both status reports.
\<close>

theorem roster_never_empty:
  "fst ` set MEMBERS \<subseteq> fst ` set (get_all_member_ids w s)
   \<and> 8 \<le> get_member_count w s
   \<and> get_all_member_ids w s \<noteq> []
   \<and> Reply No_members_registered \<notin> set (calls (mention_command w u b))
   \<and> (\<forall>(c, n) \<in> set (List.map_filter tally (calls (completion_callback w i x b))). 8 \<le> n)
   \<and> (\<forall>m k l. Reply (Group_statistics m k l) \<in> set (calls (status_command w u b)) \<longrightarrow> 8 \<le> m)
   \<and> (\<forall>rows. Reply (Deadline_status rows) \<in> set (calls (deadline_status w u b)) \<longrightarrow>
         (\<forall>(t, c, p) \<in> set rows. 8 \<le> p + int c))"
proof -
  have ne: "get_all_member_ids w s \<noteq> []" for w s
    using roster_length_ge [of w s] by auto
  have "Reply No_members_registered \<notin> set (calls (mention_command w u b))"
    by (simp add: mention_command_def say_def finish_def escape_def Let_def ne)
  moreover have "fst ` set MEMBERS \<subseteq> fst ` set (get_all_member_ids w s)"
    by (auto simp: roster_keys)
  moreover have "8 \<le> get_member_count w s"
    by (simp add: get_member_count_def roster_length_ge)
  ultimately show ?thesis
    using ne [of w s] tally_denominator [of _ _ w i x b] statistics_total [of _ _ _ w u b]
      status_total [of _ w u b]
    by (auto simp del: split_paired_All)
qed


theorem roster_never_empty_witness:
  "(1, 8) \<in> set (List.map_filter tally (calls (completion_callback calm 1 5 posted)))
   \<and> Reply (Group_statistics 8 1 (Some (''HW1'', 900))) \<in> set (calls (status_command calm tagall posted))
   \<and> Reply (Deadline_status [(''HW1'', 0, 8)]) \<in> set (calls (deadline_status calm tagall posted))
   \<and> 8 \<le> get_member_count (failing [Select_members]) empty_store
   \<and> Reply No_members_registered \<notin> set (calls (mention_command calm tagall fresh))"
proof -
  have c: "commits calm 1 5 posted"
    by (simp add: commits_def calm_def posted_def fresh_def empty_store_def)
  have r: "get_all_member_ids calm (db posted) = MEMBERS"
    by (simp add: get_all_member_ids_def seed_dict posted_def fresh_def empty_store_def calm_def)
  have a: "(1, 8) \<in> set (List.map_filter tally (calls (completion_callback calm 1 5 posted)))"
    by (simp add: completion_callback_tally c get_member_count_def r)
       (simp add: posted_def fresh_def empty_store_def MEMBERS_def)
  have adm: "is_admin calm tagall"
    by (simp add: is_admin_def calm_def tagall_def message_from_def)
  have b: "Reply (Group_statistics 8 1 (Some (''HW1'', 900))) \<in> set (calls (status_command calm tagall posted))"
    unfolding status_command_def run_simps Let_def get_member_count_def r
    by (simp add: adm)
       (simp add: get_deadline_count_def get_latest_deadline_def posted_def fresh_def
          empty_store_def calm_def MEMBERS_def)
  have d: "Reply (Deadline_status [(''HW1'', 0, 8)]) \<in> set (calls (deadline_status calm tagall posted))"
    unfolding deadline_status_def run_simps Let_def get_member_count_def r
    by (simp add: posted_def fresh_def empty_store_def calm_def MEMBERS_def)
  from a b d roster_never_empty [of "failing [Select_members]" empty_store tagall fresh 1 5]
    roster_never_empty [of calm "db posted" tagall fresh 1 5]
    roster_never_empty [of calm "db posted" tagall posted 1 5]
  show ?thesis
    by simp
qed


subsection \<open>Scheduling\<close>

lemma fold_max_ge: "seq \<le> fold max ids (seq :: int) \<and> (\<forall>i \<in> set ids. i \<le> fold max ids seq)"
proof (induction ids arbitrary: seq)
  case Nil
  show ?case by simp
next
  case (Cons a ids)
  from Cons.IH [of "max a seq"] show ?case
    by auto
qed

lemma next_rowid_fresh: "next_rowid seq ids \<notin> set ids"
  using fold_max_ge [of seq ids] by (fastforce simp: next_rowid_def)

lemma schedule_rejected:
  assumes "strptime w (args u ! 0 @ '' '' @ args u ! 1) = Some t" and "t \<le> now w"
  shows "bot_after (schedule_command w u b) = b"
    and "is_admin w u \<Longrightarrow> 3 \<le> length (args u) \<Longrightarrow>
           hd (calls (schedule_command w u b)) = Reply Must_be_future"
  using assms unfolding schedule_command_def run_simps Let_def
  by simp_all

lemma schedule_accepted:
  assumes "strptime w (args u ! 0 @ '' '' @ args u ! 1) = Some t" and "now w < t"
    and "is_admin w u" and "3 \<le> length (args u)"
    and "\<not> raises w Insert_schedule" and "\<not> raises w Run_once"
  shows "bot_after (schedule_command w u b) =
    b\<lparr>db := (db b)\<lparr>schedules := schedules (db b) @
            [\<lparr>schedule_id = next_rowid (schedules_seq (db b)) (map schedule_id (schedules (db b))),
              run_time = t, message = join (drop 2 (args u))\<rparr>],
          schedules_seq := next_rowid (schedules_seq (db b)) (map schedule_id (schedules (db b)))\<rparr>,
       job_queue := job_queue b @
            [\<lparr>job_schedule_id = next_rowid (schedules_seq (db b)) (map schedule_id (schedules (db b))),
              job_message = join (drop 2 (args u)), job_chat_id = effective_chat_id u,
              job_when = t\<rparr>]\<rparr>"
  using assms unfolding schedule_command_def run_simps Let_def
  by simp

lemma delivery:
  "schedules (db (bot_after (send_scheduled_message w j b))) =
     (if raises w Send_message \<or> raises w Delete_schedule then schedules (db b)
      else filter (\<lambda>r. schedule_id r \<noteq> job_schedule_id j) (schedules (db b)))"
  unfolding send_scheduled_message_def run_simps Let_def
  by simp

lemma delivery_failed:
  "raises w Send_message \<Longrightarrow> bot_after (send_scheduled_message w j b) = b"
  unfolding send_scheduled_message_def run_simps Let_def
  by simp

lemma delivery_calls:
  "calls (send_scheduled_message w j b) =
     [Send_text (job_chat_id j)
        (Scheduled_reminder (job_message j) (mention_links (get_all_member_ids w (db b))))]"
  unfolding send_scheduled_message_def run_simps Let_def
  by simp

lemma delivery_queue:
  "job_queue (bot_after (send_scheduled_message w j b)) = job_queue b"
  unfolding send_scheduled_message_def run_simps Let_def
  by simp

text \<open>
  C4. For a request whose date parses to \<open>t\<close>: if \<open>t\<close> is not after the current time the
  bot's state is left as it was (no row, no job), and an administrator who gave a message
  is told that the time must be in the future. If \<open>t\<close> is after the current time, the
  caller is an administrator, a message was given and neither the insert nor the job
  queue raises, one row with a new id is appended and one job for that id is queued.
  When that job fires it leaves the queue and makes exactly one call: it sends the
  request's text with the mention text of the whole roster to the request's chat. If
  that call and then the delete succeed, the table is what it was before the request,
  so the row is gone and no other row is touched; if the send raises, the row stays. In
  general the callback makes that one send and afterwards removes exactly the rows with
  its schedule id, and only when the send succeeded.
\<close>

theorem schedule_lifecycle:
  assumes "strptime w (args u ! 0 @ '' '' @ args u ! 1) = Some t"
  shows "(t \<le> now w \<longrightarrow>
            bot_after (schedule_command w u b) = b \<and>
            (is_admin w u \<and> 3 \<le> length (args u) \<longrightarrow>
               hd (calls (schedule_command w u b)) = Reply Must_be_future))
       \<and> (now w < t \<and> is_admin w u \<and> 3 \<le> length (args u) \<and>
          \<not> raises w Insert_schedule \<and> \<not> raises w Run_once \<longrightarrow>
            (let b1 = bot_after (schedule_command w u b);
                 new_id = next_rowid (schedules_seq (db b)) (map schedule_id (schedules (db b)));
                 j = \<lparr>job_schedule_id = new_id, job_message = join (drop 2 (args u)),
                      job_chat_id = effective_chat_id u, job_when = t\<rparr>
             in schedules (db b1) = schedules (db b) @
                  [\<lparr>schedule_id = new_id, run_time = t, message = join (drop 2 (args u))\<rparr>]
              \<and> job_queue b1 = job_queue b @ [j]
              \<and> calls (fire v j b1) =
                  [Send_text (effective_chat_id u)
                     (Scheduled_reminder (join (drop 2 (args u)))
                        (mention_links (get_all_member_ids v (db b1))))]
              \<and> length (job_queue (bot_after (fire v j b1))) = length (job_queue b)
              \<and> (\<not> raises v Send_message \<and> \<not> raises v Delete_schedule \<longrightarrow>
                   schedules (db (bot_after (fire v j b1))) = schedules (db b))
              \<and> (raises v Send_message \<longrightarrow>
                   schedules (db (bot_after (fire v j b1))) = schedules (db b1))))
       \<and> calls (send_scheduled_message v k b) =
            [Send_text (job_chat_id k)
               (Scheduled_reminder (job_message k) (mention_links (get_all_member_ids v (db b))))]
       \<and> schedules (db (bot_after (send_scheduled_message v k b))) =
            (if raises v Send_message \<or> raises v Delete_schedule then schedules (db b)
             else filter (\<lambda>r. schedule_id r \<noteq> job_schedule_id k) (schedules (db b)))"
proof -
  let ?new = "next_rowid (schedules_seq (db b)) (map schedule_id (schedules (db b)))"
  let ?j = "\<lparr>job_schedule_id = ?new, job_message = join (drop 2 (args u)),
             job_chat_id = effective_chat_id u, job_when = t\<rparr>"
  let ?b1 = "bot_after (schedule_command w u b)"
  have keep: "filter (\<lambda>r. schedule_id r \<noteq> ?new) (schedules (db b)) = schedules (db b)"
    using next_rowid_fresh [of "schedules_seq (db b)" "map schedule_id (schedules (db b))"]
    by (force simp: filter_id_conv)
  have A: "t \<le> now w \<longrightarrow>
            bot_after (schedule_command w u b) = b \<and>
            (is_admin w u \<and> 3 \<le> length (args u) \<longrightarrow>
               hd (calls (schedule_command w u b)) = Reply Must_be_future)"
    using schedule_rejected [OF assms, of b] by blast
  have sent: "calls (fire v ?j ?b1) =
                  [Send_text (effective_chat_id u)
                     (Scheduled_reminder (join (drop 2 (args u)))
                        (mention_links (get_all_member_ids v (db ?b1))))]"
    by (simp add: fire_def delivery_calls)
  have B: "now w < t \<and> is_admin w u \<and> 3 \<le> length (args u) \<and>
          \<not> raises w Insert_schedule \<and> \<not> raises w Run_once \<longrightarrow>
             schedules (db ?b1) = schedules (db b) @
                  [\<lparr>schedule_id = ?new, run_time = t, message = join (drop 2 (args u))\<rparr>]
              \<and> job_queue ?b1 = job_queue b @ [?j]
              \<and> length (job_queue (bot_after (fire v ?j ?b1))) = length (job_queue b)
              \<and> (\<not> raises v Send_message \<and> \<not> raises v Delete_schedule \<longrightarrow>
                   schedules (db (bot_after (fire v ?j ?b1))) = schedules (db b))
              \<and> (raises v Send_message \<longrightarrow>
                   schedules (db (bot_after (fire v ?j ?b1))) = schedules (db ?b1))"
  proof (intro impI, elim conjE)
    assume h: "now w < t" "is_admin w u" "3 \<le> length (args u)"
      "\<not> raises w Insert_schedule" "\<not> raises w Run_once"
    have q: "length (remove1 ?j (job_queue b @ [?j])) = length (job_queue b)"
      by (simp add: length_remove1)
    show "schedules (db ?b1) = schedules (db b) @
                  [\<lparr>schedule_id = ?new, run_time = t, message = join (drop 2 (args u))\<rparr>]
              \<and> job_queue ?b1 = job_queue b @ [?j]
              \<and> length (job_queue (bot_after (fire v ?j ?b1))) = length (job_queue b)
              \<and> (\<not> raises v Send_message \<and> \<not> raises v Delete_schedule \<longrightarrow>
                   schedules (db (bot_after (fire v ?j ?b1))) = schedules (db b))
              \<and> (raises v Send_message \<longrightarrow>
                   schedules (db (bot_after (fire v ?j ?b1))) = schedules (db ?b1))"
      using keep q
      by (simp add: schedule_accepted [OF assms h] fire_def delivery delivery_queue)
  qed
  have C: "calls (send_scheduled_message v k b) =
            [Send_text (job_chat_id k)
               (Scheduled_reminder (job_message k) (mention_links (get_all_member_ids v (db b))))]"
    by (rule delivery_calls)
  have D: "schedules (db (bot_after (send_scheduled_message v k b))) =
            (if raises v Send_message \<or> raises v Delete_schedule then schedules (db b)
             else filter (\<lambda>r. schedule_id r \<noteq> job_schedule_id k) (schedules (db b)))"
    by (rule delivery)
  from A B sent C D show ?thesis
    unfolding Let_def by blast
qed

theorem schedule_lifecycle_witness:
  "strptime calm (args schedule_request ! 0 @ '' '' @ args schedule_request ! 1) = Some 2000
   \<and> now calm < 2000 \<and> is_admin calm schedule_request \<and> 3 \<le> length (args schedule_request)
   \<and> \<not> raises calm Insert_schedule \<and> \<not> raises calm Run_once
   \<and> \<not> raises calm Send_message \<and> \<not> raises calm Delete_schedule
   \<and> schedules (db (bot_after (schedule_command calm schedule_request fresh)))
        = [\<lparr>schedule_id = 1, run_time = 2000, message = ''Class today!''\<rparr>]
   \<and> job_queue (bot_after (schedule_command calm schedule_request fresh))
        = [\<lparr>job_schedule_id = 1, job_message = ''Class today!'', job_chat_id = - 100,
             job_when = 2000\<rparr>]
   \<and> calls (fire calm
          \<lparr>job_schedule_id = 1, job_message = ''Class today!'', job_chat_id = - 100,
            job_when = 2000\<rparr>
          (bot_after (schedule_command calm schedule_request fresh)))
        = [Send_text (- 100) (Scheduled_reminder ''Class today!''
             [(''Vamsee'', 1387393147), (''Umesh'', 8095569186),
              (''Chetan'', 6931175630), (''Yashwanth'', 6544711761),
              (''Karthik'', 5477604530), (''Sanjith'', 6643208192),
              (''Raghunandan'', 5801384729), (''Pavan'', 103419413)])]
   \<and> job_queue (bot_after (fire calm
          \<lparr>job_schedule_id = 1, job_message = ''Class today!'', job_chat_id = - 100,
            job_when = 2000\<rparr>
          (bot_after (schedule_command calm schedule_request fresh)))) = []
   \<and> schedules (db (bot_after (fire calm
          \<lparr>job_schedule_id = 1, job_message = ''Class today!'', job_chat_id = - 100,
            job_when = 2000\<rparr>
          (bot_after (schedule_command calm schedule_request fresh))))) = []
   \<and> 2000 \<le> now (calm\<lparr>now := 2000\<rparr>)
   \<and> bot_after (schedule_command (calm\<lparr>now := 2000\<rparr>) schedule_request fresh) = fresh
   \<and> hd (calls (schedule_command (calm\<lparr>now := 2000\<rparr>) schedule_request fresh))
        = Reply Must_be_future"
proof -
  have p: "strptime calm (args schedule_request ! 0 @ '' '' @ args schedule_request ! 1) = Some 2000"
    by (simp add: calm_def schedule_request_def message_from_def)
  have p': "strptime (calm\<lparr>now := 2000\<rparr>)
              (args schedule_request ! 0 @ '' '' @ args schedule_request ! 1) = Some 2000"
    by (simp add: calm_def schedule_request_def message_from_def)
  have h: "now calm < 2000" "is_admin calm schedule_request" "3 \<le> length (args schedule_request)"
    "\<not> raises calm Insert_schedule" "\<not> raises calm Run_once"
    "\<not> raises calm Send_message" "\<not> raises calm Delete_schedule"
    "is_admin (calm\<lparr>now := 2000\<rparr>) schedule_request"
    by (simp_all add: calm_def is_admin_def schedule_request_def message_from_def)
  have n: "next_rowid (schedules_seq (db fresh)) (map schedule_id (schedules (db fresh))) = 1"
    "schedules (db fresh) = []" "job_queue fresh = []"
    "join (drop 2 (args schedule_request)) = ''Class today!''"
    "effective_chat_id schedule_request = - 100"
    by (simp_all add: next_rowid_def fresh_def empty_store_def schedule_request_def message_from_def)
  have r: "mention_links (get_all_member_ids calm
             (db (bot_after (schedule_command calm schedule_request fresh))))
        = [(''Vamsee'', 1387393147), (''Umesh'', 8095569186),
           (''Chetan'', 6931175630), (''Yashwanth'', 6544711761),
           (''Karthik'', 5477604530), (''Sanjith'', 6643208192),
           (''Raghunandan'', 5801384729), (''Pavan'', 103419413)]"
    by code_simp
  from schedule_lifecycle [OF p, of fresh calm "\<lparr>job_schedule_id = 1, job_message = ''Class today!'',
        job_chat_id = - 100, job_when = 2000\<rparr>"]
    schedule_lifecycle [OF p', of fresh calm "\<lparr>job_schedule_id = 1, job_message = ''Class today!'',
        job_chat_id = - 100, job_when = 2000\<rparr>"]
    p h n r
  show ?thesis
    by (simp add: Let_def)
qed

subsection \<open>The deadline workflow\<close>

lemma receive_file_failed:
  assumes "document u \<noteq> None \<or> photo u \<noteq> [] \<or> video u \<noteq> None"
    and "\<not> raises w Insert_deadline"
    and "raises w Send_file \<or> raises w Update_message_id"
  shows "deadlines (db (bot_after (deadline_receive_file w u b))) =
           deadlines (db b) @
             [\<lparr>deadline_id = next_rowid (deadlines_seq (db b)) (map deadline_id (deadlines (db b))),
               title = (case user_data b (effective_user_id u) of
                          None \<Rightarrow> ''Study Material'' | Some x \<Rightarrow> x),
               message_id = 0, chat_id = effective_chat_id u,
               file_id = (case document u of Some f \<Rightarrow> f
                          | None \<Rightarrow> if photo u \<noteq> [] then last (photo u) else the (video u)),
               created_at = now w\<rparr>]"
    and "last (calls (deadline_receive_file w u b)) = Reply Error_posting_deadline"
    and "returned (deadline_receive_file w u b) =
           (if raises w Reply_error then Raised else Returned (Some END))"
    and "conversations (bot_after (deadline_receive_file w u b)) = conversations b"
proof -
  define fid where "fid = (case document u of Some f \<Rightarrow> f
                          | None \<Rightarrow> if photo u \<noteq> [] then last (photo u) else the (video u))"
  have "\<exists>kind. (case document u of
        Some f \<Rightarrow> Some (Document, f)
      | None \<Rightarrow>
          if photo u \<noteq> [] then Some (Photo, last (photo u))
          else (case video u of
                  Some f \<Rightarrow> Some (Video, f)
                | None \<Rightarrow> None)) = Some (kind, fid)"
  proof (cases "document u")
    case (Some f)
    then show ?thesis by (simp add: fid_def)
  next
    case None
    with assms(1) show ?thesis
      by (cases "video u") (auto simp: fid_def)
  qed
  then obtain kind where att:
    "(case document u of
        Some f \<Rightarrow> Some (Document, f)
      | None \<Rightarrow>
          if photo u \<noteq> [] then Some (Photo, last (photo u))
          else (case video u of
                  Some f \<Rightarrow> Some (Video, f)
                | None \<Rightarrow> None)) = Some (kind, fid)"
    by blast
  show "deadlines (db (bot_after (deadline_receive_file w u b))) =
           deadlines (db b) @
             [\<lparr>deadline_id = next_rowid (deadlines_seq (db b)) (map deadline_id (deadlines (db b))),
               title = (case user_data b (effective_user_id u) of
                          None \<Rightarrow> ''Study Material'' | Some x \<Rightarrow> x),
               message_id = 0, chat_id = effective_chat_id u,
               file_id = (case document u of Some f \<Rightarrow> f
                          | None \<Rightarrow> if photo u \<noteq> [] then last (photo u) else the (video u)),
               created_at = now w\<rparr>]"
    and "last (calls (deadline_receive_file w u b)) = Reply Error_posting_deadline"
    and "returned (deadline_receive_file w u b) =
           (if raises w Reply_error then Raised else Returned (Some END))"
    and "conversations (bot_after (deadline_receive_file w u b)) = conversations b"
    using assms(2,3) unfolding deadline_receive_file_def run_simps Let_def att
    by (auto simp: fid_def)
qed

text \<open>
  C5, as amended. For a message with an attachment: when the insert succeeds and then
  posting the file or patching the message id raises, the handler's last call is the
  error reply to the caller, and the deadlines table is the old one with one row
  appended, under a new id and with message id 0: no row is taken back. When that error
  reply is delivered, the handler returns \<^verbatim>\<open>END\<close>, so the session's entry is removed.
  The claim as first stated promised the return to the idle session in every case;
  \<open>orphaned_deadline_stuck\<close> below shows a run where it does not happen.
\<close>

theorem orphaned_deadline:
  assumes "document u \<noteq> None \<or> photo u \<noteq> [] \<or> video u \<noteq> None"
    and "\<not> raises w Insert_deadline"
    and "raises w Send_file \<or> raises w Update_message_id"
  shows "last (calls (update_state key (deadline_receive_file w u b))) = Reply Error_posting_deadline
       \<and> map deadline_id (deadlines (db (bot_after (update_state key (deadline_receive_file w u b)))))
           = map deadline_id (deadlines (db b)) @
             [next_rowid (deadlines_seq (db b)) (map deadline_id (deadlines (db b)))]
       \<and> map message_id (deadlines (db (bot_after (update_state key (deadline_receive_file w u b)))))
           = map message_id (deadlines (db b)) @ [0]
       \<and> (\<not> raises w Reply_error \<longrightarrow>
            returned (update_state key (deadline_receive_file w u b)) = Returned (Some END) \<and>
            conversations (bot_after (update_state key (deadline_receive_file w u b))) key = None)"
  using receive_file_failed [OF assms, of b]
  by (simp add: update_state_def END_def)

theorem orphaned_deadline_witness:
  "document file_message = Some ''file-9''
   \<and> \<not> raises (failing [Send_file]) Insert_deadline
   \<and> raises (failing [Send_file]) Send_file
   \<and> \<not> raises (failing [Send_file]) Reply_error
   \<and> conversations waiting (- 100, 1387393147) = Some WAITING_FOR_FILE
   \<and> conversations (bot_after (update_state (- 100, 1387393147)
        (deadline_receive_file (failing [Send_file]) file_message waiting))) (- 100, 1387393147) = None
   \<and> map message_id (deadlines (db (bot_after (update_state (- 100, 1387393147)
        (deadline_receive_file (failing [Send_file]) file_message waiting))))) = [0]
   \<and> map deadline_id (deadlines (db (bot_after (update_state (- 100, 1387393147)
        (deadline_receive_file (failing [Send_file]) file_message waiting))))) = [1]"
proof -
  have h: "document file_message \<noteq> None \<or> photo file_message \<noteq> [] \<or> video file_message \<noteq> None"
    "\<not> raises (failing [Send_file]) Insert_deadline"
    "raises (failing [Send_file]) Send_file \<or> raises (failing [Send_file]) Update_message_id"
    "\<not> raises (failing [Send_file]) Reply_error"
    by (simp_all add: file_message_def message_from_def failing_def calm_def)
  have s: "deadlines (db waiting) = []" "deadlines_seq (db waiting) = 0"
    "conversations waiting (- 100, 1387393147) = Some WAITING_FOR_FILE"
    by (simp_all add: waiting_def fresh_def empty_store_def)
  have d: "document file_message = Some ''file-9''" "raises (failing [Send_file]) Send_file"
    by (simp_all add: file_message_def message_from_def failing_def calm_def)
  from orphaned_deadline [OF h(1,2,3), of "(- 100, 1387393147)" waiting] h(2,4) d s show ?thesis
    by (simp add: next_rowid_def)
qed

text \<open>
  The error reply stands in the \<^verbatim>\<open>except\<close> branch, outside any \<^verbatim>\<open>try\<close>. When the chat
  cannot be reached, posting the file raises and so does that reply: the exception
  leaves the handler, \<^verbatim>\<open>return ConversationHandler.END\<close> is not reached, and the
  conversation handler keeps the session in \<^verbatim>\<open>WAITING_FOR_FILE\<close>, with the row stored.
\<close>

theorem orphaned_deadline_stuck:
  "conversations waiting (- 100, 1387393147) = Some WAITING_FOR_FILE
   \<and> document file_message = Some ''file-9''
   \<and> \<not> raises (failing [Send_file, Reply_error]) Insert_deadline
   \<and> raises (failing [Send_file, Reply_error]) Send_file
   \<and> calls (process_update (failing [Send_file, Reply_error]) file_message waiting)
        = [Send Document (- 100) ''file-9'' (Deadline_caption ''Essay'') 1,
           Reply Error_posting_deadline]
   \<and> map message_id
        (deadlines (db (bot_after
           (process_update (failing [Send_file, Reply_error]) file_message waiting)))) = [0]
   \<and> returned (process_update (failing [Send_file, Reply_error]) file_message waiting) = Raised
   \<and> conversations (bot_after
        (process_update (failing [Send_file, Reply_error]) file_message waiting))
          (- 100, 1387393147) = Some WAITING_FOR_FILE"
proof -
  have "conversations waiting (- 100, 1387393147) = Some WAITING_FOR_FILE"
    by code_simp
  moreover have "document file_message = Some ''file-9''"
    by code_simp
  moreover have "\<not> raises (failing [Send_file, Reply_error]) Insert_deadline"
    by code_simp
  moreover have "raises (failing [Send_file, Reply_error]) Send_file"
    by code_simp
  moreover have "calls (process_update (failing [Send_file, Reply_error]) file_message waiting)
        = [Send Document (- 100) ''file-9'' (Deadline_caption ''Essay'') 1,
           Reply Error_posting_deadline]"
    by code_simp
  moreover have "map message_id
        (deadlines (db (bot_after
           (process_update (failing [Send_file, Reply_error]) file_message waiting)))) = [0]"
    by code_simp
  moreover have
    "returned (process_update (failing [Send_file, Reply_error]) file_message waiting) = Raised"
    by code_simp
  moreover have "conversations (bot_after
        (process_update (failing [Send_file, Reply_error]) file_message waiting))
          (- 100, 1387393147) = Some WAITING_FOR_FILE"
    by code_simp
  ultimately show ?thesis
    by simp
qed


lemma receive_file_never_prompts:
  "document u \<noteq> None \<or> photo u \<noteq> [] \<or> video u \<noteq> None \<Longrightarrow>
     Reply Send_valid_file \<notin> set (calls (deadline_receive_file w u b))"
  unfolding deadline_receive_file_def run_simps Let_def
  by (auto split: option.splits)

lemma update_state_calls: "calls (update_state key r) = calls r"
  by (simp add: update_state_def split: outcome.splits option.splits)

lemma remind_never_prompts: "Reply Send_valid_file \<notin> set (calls (deadline_remind w u b))"
  unfolding deadline_remind_def run_simps Let_def
  by (simp split: option.splits prod.splits)

lemma status_never_prompts: "Reply Send_valid_file \<notin> set (calls (deadline_status w u b))"
  unfolding deadline_status_def run_simps Let_def
  by simp

lemma command_never_prompts: "Reply Send_valid_file \<notin> set (calls (deadline_command w u b))"
  unfolding deadline_command_def Let_def
  by (simp add: remind_never_prompts status_never_prompts say_def finish_def escape_def)

lemma conv_never_prompts:
  "deadline_conv w u b = Some r \<Longrightarrow> Reply Send_valid_file \<notin> set (calls r)"
  unfolding deadline_conv_def Let_def
  by (auto simp: command_never_prompts receive_file_never_prompts cancel_deadline_def
        update_state_calls say_def finish_def escape_def split: option.splits if_splits)

lemma schedule_never_prompts: "Reply Send_valid_file \<notin> set (calls (schedule_command w u b))"
  unfolding schedule_command_def run_simps Let_def
  by (simp split: option.splits)

lemma mention_never_prompts: "Reply Send_valid_file \<notin> set (calls (mention_command w u b))"
  unfolding mention_command_def run_simps Let_def
  by simp

lemma retry_prompt_unreachable:
  "Reply Send_valid_file \<notin> set (calls (process_update w u b))"
proof (cases "deadline_conv w u b")
  case None
  then show ?thesis
    unfolding process_update_def
    by (simp add: schedule_never_prompts mention_never_prompts start_def help_command_def
          status_command_def auto_register_member_def say_def finish_def escape_def Let_def)
next
  case (Some r)
  with conv_never_prompts [OF Some] show ?thesis
    unfolding process_update_def
    by (simp add: schedule_never_prompts mention_never_prompts start_def help_command_def
          status_command_def say_def finish_def escape_def Let_def)
qed

text \<open>
  C7. The claim fails on the program at its first step. Called on a message without
  document, photo or video, \<open>deadline_receive_file\<close> does answer with the retry prompt
  and asks to stay in \<^verbatim>\<open>WAITING_FOR_FILE\<close>. But \<^verbatim>\<open>main\<close> registers it behind the filter
  \<^verbatim>\<open>Document.ALL | PHOTO | VIDEO\<close>, so such a message never reaches it: for the waiting
  administrator's text message the conversation handler declines, the message falls
  through to \<open>auto_register_member\<close>, and nothing is sent. The session stays in
  \<^verbatim>\<open>WAITING_FOR_FILE\<close>, no deadline row is inserted, and a document sent next creates
  the row and ends the conversation. No update in any state makes the program send the
  retry prompt.
\<close>

theorem retry_prompt_never_sent:
  "calls (deadline_receive_file calm text_message waiting) = [Reply Send_valid_file]
   \<and> returned (deadline_receive_file calm text_message waiting) = Returned (Some WAITING_FOR_FILE)
   \<and> conversations waiting (- 100, 1387393147) = Some WAITING_FOR_FILE
   \<and> calls (process_update calm text_message waiting) = []
   \<and> conversations (bot_after (process_update calm text_message waiting)) (- 100, 1387393147)
        = Some WAITING_FOR_FILE
   \<and> deadlines (db (bot_after (process_update calm text_message waiting))) = []
   \<and> map title (deadlines (db (bot_after (process_update calm file_message
        (bot_after (process_update calm text_message waiting)))))) = [''Essay'']
   \<and> conversations (bot_after (process_update calm file_message
        (bot_after (process_update calm text_message waiting)))) (- 100, 1387393147) = None
   \<and> Reply Send_valid_file \<notin> set (calls (process_update w u b))"
proof -
  have "calls (deadline_receive_file calm text_message waiting) = [Reply Send_valid_file]"
    by code_simp
  moreover have "returned (deadline_receive_file calm text_message waiting)
                   = Returned (Some WAITING_FOR_FILE)"
    by code_simp
  moreover have "conversations waiting (- 100, 1387393147) = Some WAITING_FOR_FILE"
    by code_simp
  moreover have "calls (process_update calm text_message waiting) = []"
    by code_simp
  moreover have "conversations (bot_after (process_update calm text_message waiting))
                   (- 100, 1387393147) = Some WAITING_FOR_FILE"
    by code_simp
  moreover have "deadlines (db (bot_after (process_update calm text_message waiting))) = []"
    by code_simp
  moreover have "map title (deadlines (db (bot_after (process_update calm file_message
        (bot_after (process_update calm text_message waiting)))))) = [''Essay'']"
    by code_simp
  moreover have "conversations (bot_after (process_update calm file_message
        (bot_after (process_update calm text_message waiting)))) (- 100, 1387393147) = None"
    by code_simp
  ultimately show ?thesis
    using retry_prompt_unreachable [of w u b] by simp
qed

text \<open>
  C8. A caller who is not an administrator gets the one reply "only admins can use
  /deadline", and the bot's state after the handler, and after the conversation handler
  has processed its return value, is the state before: no session entry, no stored
  title, no deadline row. This is what a \<^verbatim>\<open>/deadline\<close> message does to an idle session.
\<close>

theorem deadline_rejects_non_admin:
  assumes "\<not> is_admin w u"
  shows "calls (deadline_command w u b) = [Reply (Only_admins ''deadline'')]
       \<and> bot_after (deadline_command w u b) = b
       \<and> bot_after (update_state key (deadline_command w u b)) = b
       \<and> (command u = Some ''deadline'' \<and>
          conversations b (effective_chat_id u, effective_user_id u) = None \<longrightarrow>
            calls (process_update w u b) = [Reply (Only_admins ''deadline'')] \<and>
            bot_after (process_update w u b) = b)"
proof -
  have r: "deadline_command w u b =
             (if raises w Reply_text then escape b [Reply (Only_admins ''deadline'')]
              else finish b [Reply (Only_admins ''deadline'')] None)"
    using assms by (simp add: deadline_command_def say_def)
  have s: "update_state k (deadline_command w u b) = deadline_command w u b" for k
    by (simp add: r update_state_def finish_def escape_def)
  have "command u = Some ''deadline'' \<Longrightarrow>
          conversations b (effective_chat_id u, effective_user_id u) = None \<Longrightarrow>
          process_update w u b = deadline_command w u b"
    by (simp add: process_update_def deadline_conv_def Let_def s)
  then show ?thesis
    by (auto simp: s) (simp_all add: r finish_def escape_def)
qed

theorem deadline_rejects_non_admin_witness:
  "\<not> is_admin calm (deadline_request 42)
   \<and> command (deadline_request 42) = Some ''deadline''
   \<and> conversations fresh
        (effective_chat_id (deadline_request 42), effective_user_id (deadline_request 42)) = None
   \<and> calls (process_update calm (deadline_request 42) fresh) = [Reply (Only_admins ''deadline'')]
   \<and> bot_after (process_update calm (deadline_request 42) fresh) = fresh
   \<and> is_admin calm (deadline_request 1387393147)
   \<and> conversations (bot_after (process_update calm (deadline_request 1387393147) fresh))
        (- 100, 1387393147) = Some WAITING_FOR_FILE"
proof -
  have h: "\<not> is_admin calm (deadline_request 42)"
    "command (deadline_request 42) = Some ''deadline''"
    "conversations fresh
        (effective_chat_id (deadline_request 42), effective_user_id (deadline_request 42)) = None"
    "is_admin calm (deadline_request 1387393147)"
    by (simp_all add: is_admin_def calm_def deadline_request_def message_from_def fresh_def)
  have a: "conversations (bot_after (process_update calm (deadline_request 1387393147) fresh))
        (- 100, 1387393147) = Some WAITING_FOR_FILE"
    unfolding process_update_def deadline_conv_def Let_def
    by (simp add: deadline_request_def message_from_def fresh_def)
       (simp add: deadline_command_def update_state_def say_def finish_def is_admin_def calm_def
          lower_def Let_def WAITING_FOR_FILE_def END_def)
  from deadline_rejects_non_admin [OF h(1), of fresh "(0, 0)"] h a show ?thesis
    by simp
qed


end
